theory Spec2Isabelle
  imports Complex_Main "HOL-Library.AList"
begin

section \<open>Text, decimal numbers and the regular expressions of the output parsers\<close>

text \<open>
  Python text is modelled as \<open>string\<close>, one \<open>char\<close> per code point, so the model covers
  text whose code points are below 256. On that range \<open>str.isspace\<close> and the regular
  expression class \<open>\s\<close> hold of the code points 9 to 13, 28 to 32, 133 and 160, and
  \<open>\d\<close> holds of the ASCII digits only. Floating-point values (\<open>coverage_percent\<close>, the
  mutation score) are modelled by exact rationals: rounding to a double is not modelled.
\<close>

definition py_isspace :: "char \<Rightarrow> bool" where
  "py_isspace c =
     (let n = (of_char c :: nat)
      in (9 \<le> n \<and> n \<le> 13) \<or> (28 \<le> n \<and> n \<le> 32) \<or> n = 133 \<or> n = 160)"

definition py_isdigit :: "char \<Rightarrow> bool" where
  "py_isdigit c = (let n = (of_char c :: nat) in 48 \<le> n \<and> n \<le> 57)"

text \<open>\<open>str.lower\<close> on one character, for the ASCII letters (the only letters the
  case-insensitive patterns below contain).\<close>

definition py_lower :: "char \<Rightarrow> char" where
  "py_lower c =
     (let n = (of_char c :: nat) in if 65 \<le> n \<and> n \<le> 90 then char_of (n + 32) else c)"


text \<open>\<open>int(d)\<close> for a string of decimal digits.\<close>

definition digit_val :: "char \<Rightarrow> nat" where
  "digit_val c = (of_char c :: nat) - 48"

definition py_int :: "string \<Rightarrow> int" where
  "py_int d = int (foldl (\<lambda>a c. 10 * a + digit_val c) 0 d)"

text \<open>
  \<open>float(t)\<close> for a text of digits and dots, which is all that the groups \<open>(\d+)\<close>,
  \<open>(\d+(?:\.\d+)?)\<close> and \<open>([\d.]+)\<close> can hold. Python accepts \<open>12\<close>, \<open>12.\<close>, \<open>.5\<close>
  and \<open>12.5\<close>, and raises \<open>ValueError\<close> on \<open>.\<close>, \<open>1.2.3\<close> and the like: \<open>None\<close> here.
\<close>

definition py_float :: "string \<Rightarrow> rat option" where
  "py_float t =
     (let a = takeWhile py_isdigit t; b = dropWhile py_isdigit t
      in case b of
           [] \<Rightarrow> if a = [] then None else Some (of_int (py_int a))
         | c # f \<Rightarrow>
             if c = CHR ''.'' \<and> list_all py_isdigit f \<and> (a \<noteq> [] \<or> f \<noteq> [])
             then Some (of_int (py_int (a @ f)) / 10 ^ length f)
             else None)"

text \<open>\<open>s.replace(old, new)\<close> for a non-empty \<open>old\<close>: every non-overlapping occurrence,
  leftmost first. The counter \<open>k\<close> skips the rest of an occurrence just replaced.\<close>

fun replace_from :: "nat \<Rightarrow> string \<Rightarrow> string \<Rightarrow> string \<Rightarrow> string" where
  "replace_from k old new [] = []"
| "replace_from k old new (x # xs) =
     (if 0 < k then replace_from (k - 1) old new xs
      else if take (length old) (x # xs) = old
           then new @ replace_from (length old - 1) old new xs
           else x # replace_from 0 old new xs)"

definition py_replace :: "string \<Rightarrow> string \<Rightarrow> string \<Rightarrow> string" where
  "py_replace s old new = replace_from 0 old new s"

text \<open>\<open>sep.join(xs)\<close>.\<close>

fun py_join :: "string \<Rightarrow> string list \<Rightarrow> string" where
  "py_join sep [] = []"
| "py_join sep [x] = x"
| "py_join sep (x # y # ys) = x @ sep @ py_join sep (y # ys)"

subsection \<open>Regular expressions\<close>

text \<open>
  The patterns of the source are sequences of literals, of the classes \<open>\d\<close>, \<open>\s\<close>, \<open>.\<close>,
  \<open>[\d.]\<close> and \<open>[:\s]\<close> (once, or under \<open>*\<close>, \<open>+\<close>, \<open>*?\<close>), of optional parts \<open>(?:...)?\<close> and of
  capturing groups. The matcher lists every way a pattern can match at the start of a text,
  in the order in which a backtracking matcher tries them (greedy repetitions longest
  first, lazy ones shortest first, an optional part taken before it is left out), so the
  head of the list is the match that \<open>re\<close> reports.
\<close>

datatype cclass = Digit | Space | AnyChar | DigitDot | ColonSpace

fun in_class :: "cclass \<Rightarrow> char \<Rightarrow> bool" where
  "in_class Digit c = py_isdigit c"
| "in_class Space c = py_isspace c"
| "in_class AnyChar c = (c \<noteq> CHR 0x0A)"
| "in_class DigitDot c = (py_isdigit c \<or> c = CHR ''.'')"
| "in_class ColonSpace c = (c = CHR '':'' \<or> py_isspace c)"

datatype item =
    Lit char
  | One cclass
  | Star cclass
  | Plus cclass
  | LazyStar cclass
  | Opt "item list"

datatype atom = It item | Grp "item list" | OptGrp "item list"

type_synonym pattern = "atom list"
type_synonym groups = "string option list"

definition same_char :: "bool \<Rightarrow> char \<Rightarrow> char \<Rightarrow> bool" where
  "same_char ic c x = (if ic then py_lower c = py_lower x else c = x)"

definition run_len :: "cclass \<Rightarrow> string \<Rightarrow> nat" where
  "run_len k s = length (takeWhile (in_class k) s)"

fun m_item :: "bool \<Rightarrow> item \<Rightarrow> string \<Rightarrow> string list"
  and m_items :: "bool \<Rightarrow> item list \<Rightarrow> string \<Rightarrow> string list" where
  "m_item ic (Lit c) s = (case s of [] \<Rightarrow> [] | x # xs \<Rightarrow> if same_char ic c x then [xs] else [])"
| "m_item ic (One k) s = (case s of [] \<Rightarrow> [] | x # xs \<Rightarrow> if in_class k x then [xs] else [])"
| "m_item ic (Star k) s = map (\<lambda>j. drop j s) (rev [0 ..< Suc (run_len k s)])"
| "m_item ic (Plus k) s = map (\<lambda>j. drop j s) (rev [1 ..< Suc (run_len k s)])"
| "m_item ic (LazyStar k) s = map (\<lambda>j. drop j s) [0 ..< Suc (run_len k s)]"
| "m_item ic (Opt is) s = m_items ic is s @ [s]"
| "m_items ic [] s = [s]"
| "m_items ic (i # is) s = concat (map (m_items ic is) (m_item ic i s))"

fun m_atom :: "bool \<Rightarrow> atom \<Rightarrow> string \<Rightarrow> (string \<times> groups) list" where
  "m_atom ic (It i) s = map (\<lambda>r. (r, [])) (m_item ic i s)"
| "m_atom ic (Grp is) s =
     map (\<lambda>r. (r, [Some (take (length s - length r) s)])) (m_items ic is s)"
| "m_atom ic (OptGrp is) s =
     map (\<lambda>r. (r, [Some (take (length s - length r) s)])) (m_items ic is s) @ [(s, [None])]"

fun m_pat :: "bool \<Rightarrow> pattern \<Rightarrow> string \<Rightarrow> (string \<times> groups) list" where
  "m_pat ic [] s = [(s, [])]"
| "m_pat ic (a # as) s =
     concat (map (\<lambda>(r, g). map (\<lambda>(r', g'). (r', g @ g')) (m_pat ic as r)) (m_atom ic a s))"

definition match_at :: "bool \<Rightarrow> pattern \<Rightarrow> string \<Rightarrow> groups option" where
  "match_at ic p s = (case m_pat ic p s of [] \<Rightarrow> None | (r, g) # _ \<Rightarrow> Some g)"

text \<open>\<open>re.search(p, s)\<close> (with \<open>re.IGNORECASE\<close> when \<open>ic\<close>): the match at the leftmost
  position that has one; the result is the list of its groups.\<close>

fun re_search :: "bool \<Rightarrow> pattern \<Rightarrow> string \<Rightarrow> groups option" where
  "re_search ic p [] = match_at ic p []"
| "re_search ic p (x # xs) =
     (case match_at ic p (x # xs) of Some g \<Rightarrow> Some g | None \<Rightarrow> re_search ic p xs)"

text \<open>\<open>len(re.findall(w, s))\<close> for a non-empty literal \<open>w\<close>: the occurrences of \<open>w\<close>, leftmost
  first and without overlap.\<close>

fun count_from :: "nat \<Rightarrow> string \<Rightarrow> string \<Rightarrow> nat" where
  "count_from k w [] = 0"
| "count_from k w (x # xs) =
     (if 0 < k then count_from (k - 1) w xs
      else if take (length w) (x # xs) = w then Suc (count_from (length w - 1) w xs)
      else count_from 0 w xs)"

definition findall_count :: "string \<Rightarrow> string \<Rightarrow> nat" where
  "findall_count w s = count_from 0 w s"

definition lit :: "string \<Rightarrow> pattern" where
  "lit w = map (\<lambda>c. It (Lit c)) w"

definition digits :: atom where
  "digits = Grp [Plus Digit]"

definition spaces :: atom where
  "spaces = It (Star Space)"

section \<open>The sandbox executor (\<open>tools/sandbox_tools.py\<close>)\<close>

datatype ExecutionStatus = SUCCESS | FAILURE | TIMEOUT | ERROR

text \<open>Exceptions are values: \<open>ContainerError\<close> is \<open>docker.errors.ContainerError\<close>,
  \<open>GithubException\<close> carries the platform's message, \<open>OtherException\<close> is any other
  \<open>Exception\<close>. \<open>exn_str\<close> is \<open>str(e)\<close>.\<close>

datatype py_exn =
    ValueError string
  | ContainerError string
  | GithubException string
  | OtherException string

fun exn_str :: "py_exn \<Rightarrow> string" where
  "exn_str (ValueError m) = m"
| "exn_str (ContainerError m) = m"
| "exn_str (GithubException m) = m"
| "exn_str (OtherException m) = m"

record TestResult =
  status :: ExecutionStatus
  exit_code :: int
  stdout :: string
  stderr :: string
  duration_seconds :: nat
  tests_passed :: int
  tests_failed :: int
  tests_skipped :: int
  coverage_percent :: "rat option"

subsection \<open>The patterns of \<open>_parse_test_output\<close>\<close>

text \<open>\<^verbatim>\<open>(\d+) passed\<close>, \<^verbatim>\<open>(\d+) failed\<close>, \<^verbatim>\<open>(\d+) skipped\<close> (pytest).\<close>

definition re_passed :: pattern where
  "re_passed = [digits] @ lit '' passed''"

definition re_failed :: pattern where
  "re_failed = [digits] @ lit '' failed''"

definition re_skipped :: pattern where
  "re_skipped = [digits] @ lit '' skipped''"

text \<open>\<^verbatim>\<open>Tests:\s*(\d+) passed\<close> and \<^verbatim>\<open>Tests:.*?(\d+) failed\<close> (Jest).\<close>

definition re_jest_passed :: pattern where
  "re_jest_passed = lit ''Tests:'' @ [spaces, digits] @ lit '' passed''"

definition re_jest_failed :: pattern where
  "re_jest_failed = lit ''Tests:'' @ [It (LazyStar AnyChar), digits] @ lit '' failed''"

text \<open>\<^verbatim>\<open>(\d+) passing\<close>, \<^verbatim>\<open>(\d+) failing\<close>, \<^verbatim>\<open>(\d+) pending\<close> (Mocha).\<close>

definition re_passing :: pattern where
  "re_passing = [digits] @ lit '' passing''"

definition re_failing :: pattern where
  "re_failing = [digits] @ lit '' failing''"

definition re_pending :: pattern where
  "re_pending = [digits] @ lit '' pending''"

text \<open>\<^verbatim>\<open>Tests run:\s*(\d+),\s*Failures:\s*(\d+),\s*Errors:\s*(\d+),\s*Skipped:\s*(\d+)\<close>
  (Maven).\<close>

definition re_maven :: pattern where
  "re_maven =
     lit ''Tests run:'' @ [spaces, digits] @ lit '','' @ [spaces] @
     lit ''Failures:'' @ [spaces, digits] @ lit '','' @ [spaces] @
     lit ''Errors:'' @ [spaces, digits] @ lit '','' @ [spaces] @
     lit ''Skipped:'' @ [spaces, digits]"

text \<open>\<^verbatim>\<open>test result:.*?(\d+) passed;\s*(\d+) failed;\s*(\d+) ignored\<close> (cargo test).\<close>

definition re_cargo :: pattern where
  "re_cargo =
     lit ''test result:'' @ [It (LazyStar AnyChar), digits] @ lit '' passed;'' @
     [spaces, digits] @ lit '' failed;'' @ [spaces, digits] @ lit '' ignored''"

text \<open>\<^verbatim>\<open>Passed:\s*(\d+)\<close>, \<^verbatim>\<open>Failed:\s*(\d+)\<close>, \<^verbatim>\<open>Skipped:\s*(\d+)\<close> (dotnet test).\<close>

definition re_dotnet_passed :: pattern where
  "re_dotnet_passed = lit ''Passed:'' @ [spaces, digits]"

definition re_dotnet_failed :: pattern where
  "re_dotnet_failed = lit ''Failed:'' @ [spaces, digits]"

definition re_dotnet_skipped :: pattern where
  "re_dotnet_skipped = lit ''Skipped:'' @ [spaces, digits]"

text \<open>The coverage patterns, in the order the source tries them:
  \<^verbatim>\<open>TOTAL\s+\d+\s+\d+\s+(\d+)%\<close>, \<^verbatim>\<open>All files\s*\|\s*([\d.]+)\<close>,
  \<^verbatim>\<open>Statements\s*:\s*([\d.]+)%\<close>, \<^verbatim>\<open>Lines\s*:\s*([\d.]+)%\<close>,
  \<^verbatim>\<open>coverage:\s*(\d+(?:\.\d+)?)%\<close>, \<^verbatim>\<open>(\d+(?:\.\d+)?)%\s*coverage\<close>.\<close>

definition decimal :: atom where
  "decimal = Grp [Plus Digit, Opt [Lit (CHR ''.''), Plus Digit]]"

definition re_cov_total :: pattern where
  "re_cov_total =
     lit ''TOTAL'' @ [It (Plus Space), It (Plus Digit), It (Plus Space), It (Plus Digit),
       It (Plus Space), digits] @ lit ''%''"

definition re_cov_all_files :: pattern where
  "re_cov_all_files = lit ''All files'' @ [spaces] @ lit ''|'' @ [spaces, Grp [Plus DigitDot]]"

definition re_cov_statements :: pattern where
  "re_cov_statements =
     lit ''Statements'' @ [spaces] @ lit '':'' @ [spaces, Grp [Plus DigitDot]] @ lit ''%''"

definition re_cov_lines :: pattern where
  "re_cov_lines = lit ''Lines'' @ [spaces] @ lit '':'' @ [spaces, Grp [Plus DigitDot]] @ lit ''%''"

definition re_cov_go :: pattern where
  "re_cov_go = lit ''coverage:'' @ [spaces, decimal] @ lit ''%''"

definition re_cov_tarpaulin :: pattern where
  "re_cov_tarpaulin = [decimal] @ lit ''%'' @ [spaces] @ lit ''coverage''"

subsection \<open>\<open>DockerSandbox._parse_test_output\<close>\<close>

text \<open>\<^verbatim>\<open>match = re.search(p, combined); if match: n += int(match.group(1))\<close>\<close>

definition add_group1 :: "pattern \<Rightarrow> string \<Rightarrow> int \<Rightarrow> int" where
  "add_group1 p combined n =
     (case re_search False p combined of Some [Some d] \<Rightarrow> n + py_int d | _ \<Rightarrow> n)"

definition parsed_passed :: "string \<Rightarrow> int" where
  "parsed_passed combined =
     (let passed = 0;
          passed = add_group1 re_passed combined passed;
          passed = add_group1 re_jest_passed combined passed;
          passed = add_group1 re_passing combined passed;
          passed = (case re_search False re_maven combined of
                      Some [Some total_run, Some failures, Some errors, Some skip] \<Rightarrow>
                        passed + (py_int total_run - py_int failures - py_int errors - py_int skip)
                    | _ \<Rightarrow> passed);
          passed = passed + int (findall_count ''--- PASS:'' combined);
          passed = (case re_search False re_cargo combined of
                      Some [Some p, Some f, Some i] \<Rightarrow> passed + py_int p
                    | _ \<Rightarrow> passed);
          passed = add_group1 re_dotnet_passed combined passed
      in passed)"

definition parsed_failed :: "string \<Rightarrow> int" where
  "parsed_failed combined =
     (let failed = 0;
          failed = add_group1 re_failed combined failed;
          failed = add_group1 re_jest_failed combined failed;
          failed = add_group1 re_failing combined failed;
          failed = (case re_search False re_maven combined of
                      Some [Some total_run, Some failures, Some errors, Some skip] \<Rightarrow>
                        failed + (py_int failures + py_int errors)
                    | _ \<Rightarrow> failed);
          failed = failed + int (findall_count ''--- FAIL:'' combined);
          failed = (case re_search False re_cargo combined of
                      Some [Some p, Some f, Some i] \<Rightarrow> failed + py_int f
                    | _ \<Rightarrow> failed);
          failed = add_group1 re_dotnet_failed combined failed
      in failed)"

definition parsed_skipped :: "string \<Rightarrow> int" where
  "parsed_skipped combined =
     (let skipped = 0;
          skipped = add_group1 re_skipped combined skipped;
          skipped = add_group1 re_pending combined skipped;
          skipped = (case re_search False re_maven combined of
                       Some [Some total_run, Some failures, Some errors, Some skip] \<Rightarrow>
                         skipped + py_int skip
                     | _ \<Rightarrow> skipped);
          skipped = skipped + int (findall_count ''--- SKIP:'' combined);
          skipped = (case re_search False re_cargo combined of
                       Some [Some p, Some f, Some i] \<Rightarrow> skipped + py_int i
                     | _ \<Rightarrow> skipped);
          skipped = add_group1 re_dotnet_skipped combined skipped
      in skipped)"

text \<open>\<^verbatim>\<open>if coverage is None: match = re.search(p, combined); if match: coverage = float(match.group(1))\<close>,
  where \<open>float\<close> raises \<open>ValueError\<close> on a text such as \<open>1.2.3\<close>.\<close>

definition float_error :: "string \<Rightarrow> py_exn" where
  "float_error t = ValueError (''could not convert string to float: '' @ [CHR 0x27] @ t @ [CHR 0x27])"

definition coverage_step :: "pattern \<Rightarrow> string \<Rightarrow> py_exn + rat option \<Rightarrow> py_exn + rat option" where
  "coverage_step p combined coverage =
     (case coverage of
        Inl e \<Rightarrow> Inl e
      | Inr (Some v) \<Rightarrow> Inr (Some v)
      | Inr None \<Rightarrow>
          (case re_search False p combined of
             Some [Some t] \<Rightarrow>
               (case py_float t of Some v \<Rightarrow> Inr (Some v) | None \<Rightarrow> Inl (float_error t))
           | _ \<Rightarrow> Inr None))"

definition parsed_coverage :: "string \<Rightarrow> py_exn + rat option" where
  "parsed_coverage combined =
     (let coverage = Inr None;
          coverage = coverage_step re_cov_total combined coverage;
          coverage = coverage_step re_cov_all_files combined coverage;
          coverage = coverage_step re_cov_statements combined coverage;
          coverage = coverage_step re_cov_lines combined coverage;
          coverage = coverage_step re_cov_go combined coverage;
          coverage = coverage_step re_cov_tarpaulin combined coverage
      in coverage)"

definition parse_test_output :: "string \<Rightarrow> string \<Rightarrow> py_exn + TestResult" where
  "parse_test_output out err =
     (let combined = out @ [CHR 0x0A] @ err
      in case parsed_coverage combined of
           Inl e \<Rightarrow> Inl e
         | Inr coverage \<Rightarrow>
             Inr \<lparr> status = SUCCESS, exit_code = 0, stdout = out, stderr = err,
                   duration_seconds = 0,
                   tests_passed = parsed_passed combined,
                   tests_failed = parsed_failed combined,
                   tests_skipped = parsed_skipped combined,
                   coverage_percent = coverage \<rparr>)"

subsection \<open>\<open>DockerSandbox\<close> and \<open>DockerSandbox.execute\<close>\<close>

record DockerSandbox =
  image :: string
  timeout :: int
  memory_limit :: string
  cpu_limit :: rat
  docker_available :: bool

text \<open>\<open>DockerSandbox.__init__\<close>: \<open>reachable\<close> says whether \<open>docker.from_env()\<close> and
  \<open>client.ping()\<close> went through without an exception.\<close>

definition DockerSandbox_init :: "bool \<Rightarrow> string \<Rightarrow> int \<Rightarrow> string \<Rightarrow> rat \<Rightarrow> DockerSandbox" where
  "DockerSandbox_init reachable img t mem cpu =
     \<lparr> image = img, timeout = t, memory_limit = mem, cpu_limit = cpu,
       docker_available = reachable \<rparr>"

text \<open>
  The Docker daemon is the environment. One call of \<open>execute\<close> sends it one request (the
  container's image and limits, the injected files, the command); its response says what
  each of the three calls \<open>containers.run\<close>, \<open>put_archive\<close> and \<open>exec_run\<close> did, and how
  many seconds passed between \<open>start_time\<close> and the moment the result is built
  (durations are whole seconds). The response may depend on the requests served before
  (\<open>docker_log\<close>). The outputs of \<open>exec_run\<close> are the decoded texts, \<open>None\<close> for an
  absent stream.
\<close>

record request =
  req_image :: string
  req_command :: string
  req_files :: "(string \<times> string) list"
  req_env :: "(string \<times> string) list"
  req_mem_limit :: string
  req_nano_cpus :: int

record response =
  run_raises :: "py_exn option"
  put_archive_raises :: "py_exn option"
  exec_run :: "py_exn + (int \<times> string option \<times> string option)"
  seconds :: nat

type_synonym docker_log = "request list"
type_synonym daemon = "docker_log \<Rightarrow> request \<Rightarrow> response"

definition error_result :: "py_exn \<Rightarrow> nat \<Rightarrow> TestResult" where
  "error_result e d =
     \<lparr> status = ERROR, exit_code = - 1, stdout = [],
       stderr = (case e of
                   ContainerError m \<Rightarrow> ''Container error: '' @ m
                 | _ \<Rightarrow> ''Sandbox error: '' @ exn_str e),
       duration_seconds = d, tests_passed = 0, tests_failed = 0, tests_skipped = 0,
       coverage_percent = None \<rparr>"

definition docker_unavailable_result :: TestResult where
  "docker_unavailable_result =
     \<lparr> status = ERROR, exit_code = - 1, stdout = [],
       stderr = ''Docker is not available. Please ensure Docker Desktop is running on your system.'',
       duration_seconds = 0, tests_passed = 0, tests_failed = 0, tests_skipped = 0,
       coverage_percent = None \<rparr>"

definition decoded :: "string option \<Rightarrow> string" where
  "decoded b = (case b of None \<Rightarrow> [] | Some t \<Rightarrow> t)"

text \<open>\<open>execute\<close> returns the result and the daemon's log. The clean-up of the \<open>finally\<close>
  block swallows its own exceptions and changes neither. No branch reads \<open>timeout\<close>.\<close>

definition execute ::
  "DockerSandbox \<Rightarrow> daemon \<Rightarrow> docker_log \<Rightarrow> string \<Rightarrow> (string \<times> string) list \<Rightarrow>
     (string \<times> string) list \<Rightarrow> TestResult \<times> docker_log" where
  "execute sb d lg command code_files env_vars =
     (if \<not> docker_available sb then (docker_unavailable_result, lg)
      else
        let req = \<lparr> req_image = image sb, req_command = command, req_files = code_files,
                    req_env = env_vars, req_mem_limit = memory_limit sb,
                    req_nano_cpus = \<lfloor>cpu_limit sb * 10 ^ 9\<rfloor> \<rparr>;
            resp = d lg req;
            lg' = lg @ [req]
        in case run_raises resp of
             Some e \<Rightarrow> (error_result e (seconds resp), lg')
           | None \<Rightarrow>
               (case (if code_files \<noteq> [] then put_archive_raises resp else None) of
                  Some e \<Rightarrow> (error_result e (seconds resp), lg')
                | None \<Rightarrow>
                    (case exec_run resp of
                       Inl e \<Rightarrow> (error_result e (seconds resp), lg')
                     | Inr (code, out, err) \<Rightarrow>
                         (case parse_test_output (decoded out) (decoded err) of
                            Inl e \<Rightarrow> (error_result e (seconds resp), lg')
                          | Inr result \<Rightarrow>
                              (result \<lparr> exit_code := code,
                                        duration_seconds := seconds resp,
                                        status := (if code = 0 then SUCCESS else FAILURE) \<rparr>,
                               lg')))))"


definition with_setup :: "string list \<Rightarrow> string \<Rightarrow> string" where
  "with_setup setup_commands command =
     (if setup_commands \<noteq> [] then py_join '' && '' setup_commands @ '' && '' @ command
      else command)"


subsection \<open>\<open>TestResult.to_prompt\<close>\<close>

text \<open>The prompt is modelled by the values written into it. The coverage line is written
  only when \<open>coverage_percent\<close> is truthy, that is neither \<open>None\<close> nor \<open>0.0\<close>.\<close>

record test_prompt =
  prompt_status :: ExecutionStatus
  prompt_exit_code :: int
  prompt_duration :: nat
  prompt_passed :: int
  prompt_failed :: int
  prompt_skipped :: int
  prompt_coverage :: "rat option"
  prompt_output :: string
  prompt_errors :: "string option"

definition to_prompt :: "TestResult \<Rightarrow> test_prompt" where
  "to_prompt r =
     \<lparr> prompt_status = status r, prompt_exit_code = exit_code r,
       prompt_duration = duration_seconds r,
       prompt_passed = tests_passed r, prompt_failed = tests_failed r,
       prompt_skipped = tests_skipped r,
       prompt_coverage = (case coverage_percent r of
                            None \<Rightarrow> None
                          | Some v \<Rightarrow> if v = 0 then None else Some v),
       prompt_output = take 3000 (stdout r),
       prompt_errors = (if stderr r \<noteq> [] then Some (take 1500 (stderr r)) else None) \<rparr>"

subsection \<open>The mutation-output patterns\<close>

text \<open>The table \<open>patterns\<close> of \<open>run_mutation_tests\<close> and of the Mutmut branch of
  \<open>run_mutation_tests_on_branch\<close>, each searched with \<open>re.IGNORECASE\<close>:
  \<^verbatim>\<open>(\d+)\s*mutants\<close>, \<^verbatim>\<open>Total:\s*(\d+)\<close>, \<^verbatim>\<open>(\d+)\s*mutations\<close>;
  \<^verbatim>\<open>Killed:\s*(\d+)\<close>, \<^verbatim>\<open>(\d+)\s*killed\<close>, \<^verbatim>\<open>(\d+)\s*detected\<close>;
  \<^verbatim>\<open>Survived:\s*(\d+)\<close>, \<^verbatim>\<open>(\d+)\s*survived\<close>, \<^verbatim>\<open>(\d+)\s*undetected\<close>;
  \<^verbatim>\<open>Mutation\s*[sS]core:\s*([\d.]+)%?\<close>, \<^verbatim>\<open>Score:\s*([\d.]+)%?\<close>
  (under \<open>re.IGNORECASE\<close> the class \<open>[sS]\<close> is the literal \<open>s\<close>).\<close>

definition total_patterns :: "pattern list" where
  "total_patterns =
     [ [digits, spaces] @ lit ''mutants'',
       lit ''Total:'' @ [spaces, digits],
       [digits, spaces] @ lit ''mutations'' ]"

definition killed_patterns :: "pattern list" where
  "killed_patterns =
     [ lit ''Killed:'' @ [spaces, digits],
       [digits, spaces] @ lit ''killed'',
       [digits, spaces] @ lit ''detected'' ]"

definition survived_patterns :: "pattern list" where
  "survived_patterns =
     [ lit ''Survived:'' @ [spaces, digits],
       [digits, spaces] @ lit ''survived'',
       [digits, spaces] @ lit ''undetected'' ]"

definition score_patterns :: "pattern list" where
  "score_patterns =
     [ lit ''Mutation'' @ [spaces] @ lit ''score:'' @ [spaces, Grp [Plus DigitDot],
         It (Opt [Lit (CHR ''%'')])],
       lit ''Score:'' @ [spaces, Grp [Plus DigitDot], It (Opt [Lit (CHR ''%'')])] ]"

text \<open>\<^verbatim>\<open>for pattern in pattern_list: match = re.search(pattern, output, re.IGNORECASE);
  if match: ...; break\<close>: the groups of the first pattern of the list that matches.\<close>

fun first_match :: "pattern list \<Rightarrow> string \<Rightarrow> groups option" where
  "first_match [] output = None"
| "first_match (p # ps) output =
     (case re_search True p output of Some g \<Rightarrow> Some g | None \<Rightarrow> first_match ps output)"

definition int_or :: "pattern list \<Rightarrow> string \<Rightarrow> int \<Rightarrow> int" where
  "int_or ps output n = (case first_match ps output of Some [Some d] \<Rightarrow> py_int d | _ \<Rightarrow> n)"

definition float_or :: "pattern list \<Rightarrow> string \<Rightarrow> rat \<Rightarrow> py_exn + rat" where
  "float_or ps output v =
     (case first_match ps output of
        Some [Some t] \<Rightarrow> (case py_float t of Some w \<Rightarrow> Inr w | None \<Rightarrow> Inl (float_error t))
      | _ \<Rightarrow> Inr v)"

text \<open>The Stryker patterns of \<open>run_mutation_tests_on_branch\<close>:
  \<^verbatim>\<open>with\s+(\d+)\s+mutant\<close>,
  \<^verbatim>\<open>(\d+)/(\d+)\s+tested\s*\((\d+)\s+survived,?\s*(\d+)?\s*timed\s*out\)\<close>,
  \<^verbatim>\<open>Mutation\s+score[:\s]+(\d+(?:\.\d+)?)\s*%\<close> (with \<open>re.IGNORECASE\<close>), and the
  literal \<^verbatim>\<open>[NoCoverage]\<close>.\<close>

definition re_with_mutants :: pattern where
  "re_with_mutants = lit ''with'' @ [It (Plus Space), digits, It (Plus Space)] @ lit ''mutant''"

definition re_tested :: pattern where
  "re_tested =
     [digits] @ lit ''/'' @ [digits, It (Plus Space)] @ lit ''tested'' @ [spaces] @ lit ''('' @
     [digits, It (Plus Space)] @ lit ''survived'' @
     [It (Opt [Lit (CHR '','')]), spaces, OptGrp [Plus Digit], spaces] @ lit ''timed'' @
     [spaces] @ lit ''out)''"

definition re_stryker_score :: pattern where
  "re_stryker_score =
     lit ''Mutation'' @ [It (Plus Space)] @ lit ''score'' @ [It (Plus ColonSpace), decimal, spaces] @
     lit ''%''"

subsection \<open>\<open>run_mutation_tests\<close>\<close>

text \<open>The report is modelled by the values written into it; \<open>mutation_status\<close> is the
  word of the \<open>MUTATION_STATUS\<close> line, without its icon. \<open>MutationDockerNotAvailable\<close> is
  the message \<open>Docker Not Available\<close>, and \<open>MutationSkipped\<close> is the report
  \<open>Mutation Testing Skipped\<close>, which holds the prompt of the baseline result.\<close>

record mutation_summary =
  mutation_status :: string
  mutation_score :: rat
  total_mutants :: int
  killed_mutants :: int
  survived_mutants :: int
  raw_output :: string

datatype mutation_report =
    MutationDockerNotAvailable
  | MutationSkipped test_prompt
  | MutationResult mutation_summary

text \<open>The score of \<open>run_mutation_tests\<close>:
  \<^verbatim>\<open>if score == 0 and total > 0: score = (killed / total) * 100\<close>.\<close>

definition score_or_ratio :: "rat \<Rightarrow> int \<Rightarrow> int \<Rightarrow> rat" where
  "score_or_ratio score n_total killed =
     (if score = 0 \<and> 0 < n_total then (of_int killed / of_int n_total) * 100 else score)"

definition run_mutation_tests ::
  "bool \<Rightarrow> daemon \<Rightarrow> docker_log \<Rightarrow> (string \<times> string) list \<Rightarrow> string \<Rightarrow> string \<Rightarrow> string list \<Rightarrow>
     string \<Rightarrow> (py_exn + mutation_report) \<times> docker_log" where
  "run_mutation_tests reachable d lg code_files mutation_command docker_image setup_commands
       test_command =
     (let sandbox = DockerSandbox_init reachable docker_image 900 ''512m'' 1
      in if \<not> docker_available sandbox then (Inr MutationDockerNotAvailable, lg)
         else
           let baseline_cmd = with_setup setup_commands test_command;
               (test_result, lg1) = execute sandbox d lg baseline_cmd code_files []
           in if status test_result \<noteq> SUCCESS
              then (Inr (MutationSkipped (to_prompt test_result)), lg1)
              else
                let mutation_cmd = with_setup setup_commands mutation_command;
                    (mutation_result, lg2) = execute sandbox d lg1 mutation_cmd code_files [];
                    output = stdout mutation_result @ stderr mutation_result;
                    n_total = int_or total_patterns output 0;
                    killed = int_or killed_patterns output 0;
                    survived = int_or survived_patterns output 0
                in case float_or score_patterns output 0 of
                     Inl e \<Rightarrow> (Inl e, lg2)
                   | Inr score \<Rightarrow>
                       (Inr (MutationResult
                          \<lparr> mutation_status =
                              (if survived = 0 then ''PASSED'' else ''NEEDS IMPROVEMENT''),
                            mutation_score = score_or_ratio score n_total killed,
                            total_mutants = n_total, killed_mutants = killed,
                            survived_mutants = survived,
                            raw_output = take 3000 output \<rparr>),
                        lg2))"

subsection \<open>\<open>run_mutation_tests_on_branch\<close>\<close>

record branch_mutation_summary = mutation_summary +
  required_score :: rat
  no_coverage_mutants :: int
  timed_out_mutants :: int

datatype branch_mutation_report =
    BranchDockerNotAvailable
  | BranchMutationSkipped (baseline_output: string) (baseline_errors: "string option")
  | BranchMutationResult branch_mutation_summary

text \<open>\<open>t.replace(github_token, "***") if github_token else t\<close>\<close>

definition redact :: "string \<Rightarrow> string \<Rightarrow> string" where
  "redact github_token t = (if github_token \<noteq> [] then py_replace t github_token ''***'' else t)"

definition clone_url :: "string \<Rightarrow> string \<Rightarrow> string" where
  "clone_url github_token repo_name =
     (if github_token \<noteq> [] then ''https://'' @ github_token @ ''@github.com/'' @ repo_name @ ''.git''
      else ''https://github.com/'' @ repo_name @ ''.git'')"

definition clone_commands :: "string \<Rightarrow> string \<Rightarrow> string \<Rightarrow> string list \<Rightarrow> string list" where
  "clone_commands github_token repo_name branch_name setup_commands =
     [ ''apt-get update -qq && apt-get install -y -qq git > /dev/null 2>&1 || apk add --no-cache git > /dev/null 2>&1 || true'',
       ''git clone --depth 1 --branch '' @ branch_name @ '' '' @ clone_url github_token repo_name
         @ '' /app/repo'',
       ''cd /app/repo'' ] @ setup_commands"

definition in_repo :: "string list \<Rightarrow> string \<Rightarrow> string" where
  "in_repo commands command = py_join '' && '' commands @ '' && cd /app/repo && '' @ command"

definition token_env :: "string \<Rightarrow> (string \<times> string) list" where
  "token_env github_token = (if github_token \<noteq> [] then [(''GITHUB_TOKEN'', github_token)] else [])"

text \<open>The values parsed from the combined output, before the score is derived: total,
  killed, survived, timed out, not covered, and the score as parsed (\<open>0\<close> when no score
  pattern matches).\<close>

record parsed_mutants =
  p_total :: int
  p_killed :: int
  p_survived :: int
  p_timed_out :: int
  p_no_coverage :: int
  p_score :: rat

definition parse_mutation_output :: "string \<Rightarrow> py_exn + parsed_mutants" where
  "parse_mutation_output combined =
     (let n_total = (case re_search False re_with_mutants combined of
                     Some [Some t] \<Rightarrow> py_int t | _ \<Rightarrow> 0);
          (n_total, killed, survived, timed_out) =
            (case re_search False re_tested combined of
               Some [Some tested, Some of_total, Some surv, g4] \<Rightarrow>
                 (let timed = (case g4 of Some t \<Rightarrow> if t \<noteq> [] then py_int t else 0 | None \<Rightarrow> 0)
                  in (if n_total \<noteq> 0 then n_total else py_int of_total,
                      py_int tested - py_int surv - timed, py_int surv, timed))
             | _ \<Rightarrow> (n_total, 0, 0, 0));
          score = (case re_search True re_stryker_score combined of
                     Some [Some t] \<Rightarrow> (case py_float t of Some v \<Rightarrow> Inr v | None \<Rightarrow> Inl (float_error t))
                   | _ \<Rightarrow> Inr 0);
          no_coverage = int (findall_count ''[NoCoverage]'' combined)
      in case score of
           Inl e \<Rightarrow> Inl e
         | Inr score \<Rightarrow>
             if n_total = 0
             then
               (case float_or score_patterns combined score of
                  Inl e \<Rightarrow> Inl e
                | Inr score' \<Rightarrow>
                    Inr \<lparr> p_total = int_or total_patterns combined n_total,
                          p_killed = int_or killed_patterns combined killed,
                          p_survived = int_or survived_patterns combined survived,
                          p_timed_out = timed_out, p_no_coverage = no_coverage,
                          p_score = score' \<rparr>)
             else
               Inr \<lparr> p_total = n_total, p_killed = killed, p_survived = survived,
                     p_timed_out = timed_out, p_no_coverage = no_coverage, p_score = score \<rparr>)"

text \<open>\<^verbatim>\<open>if score == 0 and total > 0:
      effective_total = total - no_coverage if no_coverage > 0 else total
      if effective_total > 0: score = (killed / effective_total) * 100\<close>\<close>

definition derived_score :: "parsed_mutants \<Rightarrow> rat" where
  "derived_score p =
     (if p_score p = 0 \<and> 0 < p_total p
      then
        let effective_total = (if 0 < p_no_coverage p then p_total p - p_no_coverage p
                               else p_total p)
        in if 0 < effective_total then (of_int (p_killed p) / of_int effective_total) * 100
           else p_score p
      else p_score p)"

definition branch_sandbox :: "bool \<Rightarrow> string \<Rightarrow> int \<Rightarrow> DockerSandbox" where
  "branch_sandbox reachable docker_image t = DockerSandbox_init reachable docker_image t ''2g'' 1"

definition baseline_command :: "string \<Rightarrow> string \<Rightarrow> string \<Rightarrow> string list \<Rightarrow> string \<Rightarrow> string" where
  "baseline_command github_token repo_name branch_name setup_commands test_command =
     in_repo (clone_commands github_token repo_name branch_name setup_commands) test_command"

text \<open>The report returned when the baseline fails: \<^verbatim>\<open>MUTATION_STATUS: SKIPPED\<close> with the
  first 3000 characters of the baseline's redacted output and, when it is not empty,
  the first 1500 characters of its redacted error output.\<close>

definition skipped_report :: "string \<Rightarrow> TestResult \<Rightarrow> branch_mutation_report" where
  "skipped_report github_token baseline_result =
     (let out = redact github_token (stdout baseline_result);
          err = redact github_token (stderr baseline_result)
      in BranchMutationSkipped (take 3000 out)
           (if err \<noteq> [] then Some (take 1500 err) else None))"

definition run_mutation_tests_on_branch ::
  "bool \<Rightarrow> string \<Rightarrow> daemon \<Rightarrow> docker_log \<Rightarrow> string \<Rightarrow> string \<Rightarrow> string \<Rightarrow> string \<Rightarrow> string list \<Rightarrow>
     string \<Rightarrow> rat \<Rightarrow> int \<Rightarrow> (py_exn + branch_mutation_report) \<times> docker_log" where
  "run_mutation_tests_on_branch reachable github_token d lg repo_name branch_name
       mutation_command docker_image setup_commands test_command min_mutation_score t =
     (let sandbox = branch_sandbox reachable docker_image t
      in if \<not> docker_available sandbox then (Inr BranchDockerNotAvailable, lg)
         else
           let commands = clone_commands github_token repo_name branch_name setup_commands;
               (baseline_result, lg1) =
                 execute sandbox d lg
                   (baseline_command github_token repo_name branch_name setup_commands test_command)
                   [] (token_env github_token)
           in if exit_code baseline_result \<noteq> 0
              then (Inr (skipped_report github_token baseline_result), lg1)
              else
                let full_command = in_repo commands mutation_command;
                    (result, lg2) = execute sandbox d lg1 full_command [] (token_env github_token);
                    out = redact github_token (stdout result);
                    err = redact github_token (stderr result);
                    combined = out @ [CHR 0x0A] @ err
                in case parse_mutation_output combined of
                     Inl e \<Rightarrow> (Inl e, lg2)
                   | Inr p \<Rightarrow>
                       let score = derived_score p;
                           mutation_passed = (min_mutation_score \<le> score)
                       in (Inr (BranchMutationResult
                             \<lparr> mutation_status =
                                 (if mutation_passed then ''PASSED'' else ''NEEDS_IMPROVEMENT''),
                               mutation_score = score,
                               total_mutants = p_total p, killed_mutants = p_killed p,
                               survived_mutants = p_survived p,
                               raw_output = take 4000 combined,
                               required_score = min_mutation_score,
                               no_coverage_mutants = p_no_coverage p,
                               timed_out_mutants = p_timed_out p \<rparr>),
                           lg2))"

section \<open>The remote-repository gateway (\<open>tools/github_tools.py\<close>)\<close>





subsection \<open>\<open>create_branch_with_files\<close>\<close>












subsection \<open>\<open>create_branch\<close>\<close>




subsection \<open>A platform in memory\<close>

text \<open>
  A small platform for the examples: each branch has a head commit and a tree of files
  (path and content). A reference is created from the tree of the branch whose head is the
  given commit; the blob identifier of a file stands for a hash of its content; a path is
  a directory when a file of the tree lies below it.
\<close>

type_synonym tree = "(string \<times> string) list"
type_synonym mem = "(string \<times> string \<times> tree) list"








subsection \<open>\<open>get_ci_status\<close>\<close>

text \<open>The constructors of \<open>CIStatus\<close> carry the prefix \<open>CI_\<close>, since \<open>SUCCESS\<close> and
  \<open>FAILURE\<close> are constructors of \<open>ExecutionStatus\<close>.\<close>

datatype CIStatus =
    CI_PENDING | CI_QUEUED | CI_IN_PROGRESS | CI_SUCCESS | CI_FAILURE | CI_CANCELLED | CI_UNKNOWN

fun CIStatus_value :: "CIStatus \<Rightarrow> string" where
  "CIStatus_value CI_PENDING = ''pending''"
| "CIStatus_value CI_QUEUED = ''queued''"
| "CIStatus_value CI_IN_PROGRESS = ''in_progress''"
| "CIStatus_value CI_SUCCESS = ''success''"
| "CIStatus_value CI_FAILURE = ''failure''"
| "CIStatus_value CI_CANCELLED = ''cancelled''"
| "CIStatus_value CI_UNKNOWN = ''unknown''"











section \<open>The CI monitors\<close>





definition terminal_states :: "string list" where
  "terminal_states =
     [CIStatus_value CI_SUCCESS, CIStatus_value CI_FAILURE, CIStatus_value CI_CANCELLED]"

subsection \<open>\<open>monitor_ci_for_pr\<close>\<close>





subsection \<open>\<open>CIMonitor.monitor_pr\<close>\<close>






subsection \<open>\<open>wait_for_ci_completion\<close>\<close>





section \<open>Predicates and examples used in the statements\<close>

text \<open>The patterns of \<open>_parse_test_output\<close> that \<open>re.search\<close> is called with, and the
  condition that none of them, and none of the three Go markers, occurs in a text.\<close>

definition test_patterns :: "pattern list" where
  "test_patterns =
     [ re_passed, re_failed, re_skipped, re_jest_passed, re_jest_failed, re_passing,
       re_failing, re_pending, re_maven, re_cargo, re_dotnet_passed, re_dotnet_failed,
       re_dotnet_skipped, re_cov_total, re_cov_all_files, re_cov_statements, re_cov_lines,
       re_cov_go, re_cov_tarpaulin ]"

definition no_pattern_matches :: "string \<Rightarrow> bool" where
  "no_pattern_matches combined =
     (list_all (\<lambda>p. re_search False p combined = None) test_patterns \<and>
      findall_count ''--- PASS:'' combined = 0 \<and>
      findall_count ''--- FAIL:'' combined = 0 \<and>
      findall_count ''--- SKIP:'' combined = 0)"

text \<open>A daemon that starts every container and answers every command alike: exit code
  \<open>code\<close>, the text \<open>out\<close> on the standard output, nothing on the standard error, after
  \<open>secs\<close> seconds.\<close>

definition fixed_daemon :: "int \<Rightarrow> string \<Rightarrow> nat \<Rightarrow> daemon" where
  "fixed_daemon code out secs lg req =
     \<lparr> run_raises = None, put_archive_raises = None,
       exec_run = Inr (code, Some out, None), seconds = secs \<rparr>"



definition stryker_output :: string where
  "stryker_output =
     ''Instrumented 9 source file(s) with 425 mutant(s). 422/425 tested (0 survived, 21 timed out). [NoCoverage] a.ts''"










section \<open>The sandbox executor: results\<close>

lemma execute_status_exit:
  "status (fst (execute sb d lg command code_files env_vars)) = SUCCESS
   \<longleftrightarrow> exit_code (fst (execute sb d lg command code_files env_vars)) = 0"
  by (auto simp: execute_def Let_def docker_unavailable_result_def error_result_def
      split: option.splits sum.splits prod.splits)

lemma execute_status_cases:
  "status (fst (execute sb d lg command code_files env_vars)) \<in> {SUCCESS, FAILURE, ERROR}"
  by (auto simp: execute_def Let_def docker_unavailable_result_def error_result_def
      split: option.splits sum.splits prod.splits)

lemma execute_log:
  "snd (execute sb d lg command code_files env_vars) =
     (if docker_available sb
      then lg @ [\<lparr> req_image = image sb, req_command = command, req_files = code_files,
                   req_env = env_vars, req_mem_limit = memory_limit sb,
                   req_nano_cpus = \<lfloor>cpu_limit sb * 10 ^ 9\<rfloor> \<rparr>]
      else lg)"
  by (auto simp: execute_def Let_def split: option.splits sum.splits prod.splits)


lemma execute_status_not_timeout:
  "status (fst (execute sb d lg command code_files env_vars)) \<noteq> TIMEOUT"
  using execute_status_cases [of sb d lg command code_files env_vars] by auto

text \<open>
  Claim C2. The claim says that a command running longer than the sandbox's timeout ends
  in a result of status \<open>TIMEOUT\<close>. No branch of \<open>execute\<close> reads the timeout: a sandbox
  built with a timeout of one second runs a command for five seconds and returns
  \<open>SUCCESS\<close> with a duration of five seconds. (By \<open>execute_status_not_timeout\<close> no
  execution ever has the status \<open>TIMEOUT\<close>.)
\<close>

theorem execute_ignores_timeout:
  "timeout (DockerSandbox_init True ''python:3.12-slim'' 1 ''512m'' 1) = 1
   \<and> fst (execute (DockerSandbox_init True ''python:3.12-slim'' 1 ''512m'' 1)
           (fixed_daemon 0 ''done'' 5) [] ''sleep 5'' [] [])
     = \<lparr> status = SUCCESS, exit_code = 0, stdout = ''done'', stderr = [],
         duration_seconds = 5, tests_passed = 0, tests_failed = 0, tests_skipped = 0,
         coverage_percent = None \<rparr>"
  by code_simp

section \<open>The output parser: unmatched patterns\<close>

lemma add_group1_unmatched:
  "re_search False p combined = None \<Longrightarrow> add_group1 p combined n = n"
  by (simp add: add_group1_def)

lemma coverage_step_unmatched:
  "re_search False p combined = None \<Longrightarrow> coverage_step p combined (Inr None) = Inr None"
  by (simp add: coverage_step_def)

lemma no_pattern_matches_counts:
  assumes "no_pattern_matches combined"
  shows "parsed_passed combined = 0" and "parsed_failed combined = 0"
    and "parsed_skipped combined = 0"
  using assms
  by (simp_all add: no_pattern_matches_def test_patterns_def parsed_passed_def
      parsed_failed_def parsed_skipped_def add_group1_unmatched)

lemma no_pattern_matches_coverage:
  assumes "no_pattern_matches combined"
  shows "parsed_coverage combined = Inr None"
  using assms
  by (simp add: no_pattern_matches_def test_patterns_def parsed_coverage_def
      coverage_step_unmatched)

text \<open>
  Claim C3, as amended. When no test-count pattern and no coverage pattern matches the
  output, \<open>_parse_test_output\<close> raises nothing, reports the coverage as \<open>None\<close>, and
  reports each of the three test counts as the integer 0.
\<close>

theorem parse_unmatched_defaults:
  "no_pattern_matches (out @ [CHR 0x0A] @ err) \<Longrightarrow>
   parse_test_output out err =
     Inr \<lparr> status = SUCCESS, exit_code = 0, stdout = out, stderr = err,
           duration_seconds = 0, tests_passed = 0, tests_failed = 0, tests_skipped = 0,
           coverage_percent = None \<rparr>"
  by (simp add: parse_test_output_def no_pattern_matches_counts no_pattern_matches_coverage)

lemma no_tests_ran_unmatched: "no_pattern_matches (''no tests ran'' @ [CHR 0x0A] @ [])"
  by code_simp

theorem parse_unmatched_defaults_witness:
  "no_pattern_matches (''no tests ran'' @ [CHR 0x0A] @ []) \<and>
   parse_test_output ''no tests ran'' [] =
     Inr \<lparr> status = SUCCESS, exit_code = 0, stdout = ''no tests ran'', stderr = [],
           duration_seconds = 0, tests_passed = 0, tests_failed = 0, tests_skipped = 0,
           coverage_percent = None \<rparr>"
  using no_tests_ran_unmatched parse_unmatched_defaults [OF no_tests_ran_unmatched]
  by (rule conjI)

text \<open>
  Claim C3 as stated fails: on an output that no pattern matches, the parser reports the
  three test counts as 0, a number, where the claim asks for an explicit unknown.
\<close>

theorem parse_unmatched_counts_are_zero:
  "no_pattern_matches (''no tests ran'' @ [CHR 0x0A] @ []) \<and>
   map_sum id tests_passed (parse_test_output ''no tests ran'' []) = Inr 0 \<and>
   map_sum id tests_failed (parse_test_output ''no tests ran'' []) = Inr 0 \<and>
   map_sum id tests_skipped (parse_test_output ''no tests ran'' []) = Inr 0"
  by code_simp

section \<open>Mutation testing: the baseline\<close>

text \<open>
  Claim C4. When the baseline test command of a mutation-testing run fails, that is when
  the daemon is reachable and the execution of the baseline does not end with the status
  \<open>SUCCESS\<close>, both \<open>run_mutation_tests\<close> and \<open>run_mutation_tests_on_branch\<close> return the
  report that mutation testing was skipped, carrying the baseline's output; the report
  holds no score, and the baseline command is the only command sent to the daemon: the
  mutation command is never run.
\<close>

theorem mutation_skipped_on_failed_baseline:
  "(status (fst (execute (DockerSandbox_init True docker_image 900 ''512m'' 1) d lg
             (with_setup setup_commands test_command) code_files [])) \<noteq> SUCCESS
    \<longrightarrow>
      fst (run_mutation_tests True d lg code_files mutation_command docker_image setup_commands
             test_command)
        = Inr (MutationSkipped (to_prompt
            (fst (execute (DockerSandbox_init True docker_image 900 ''512m'' 1) d lg
                   (with_setup setup_commands test_command) code_files []))))
      \<and> map req_command
            (snd (run_mutation_tests True d lg code_files mutation_command docker_image
                    setup_commands test_command))
          = map req_command lg @ [with_setup setup_commands test_command])
   \<and>
   (status (fst (execute (branch_sandbox True docker_image t) d lg
             (baseline_command github_token repo_name branch_name setup_commands test_command)
             [] (token_env github_token))) \<noteq> SUCCESS
    \<longrightarrow>
      fst (run_mutation_tests_on_branch True github_token d lg repo_name branch_name
             mutation_command docker_image setup_commands test_command min_mutation_score t)
        = Inr (skipped_report github_token
            (fst (execute (branch_sandbox True docker_image t) d lg
                   (baseline_command github_token repo_name branch_name setup_commands
                      test_command)
                   [] (token_env github_token))))
      \<and> map req_command
            (snd (run_mutation_tests_on_branch True github_token d lg repo_name branch_name
                    mutation_command docker_image setup_commands test_command
                    min_mutation_score t))
          = map req_command lg
              @ [baseline_command github_token repo_name branch_name setup_commands test_command])"
proof (intro conjI impI)
  let ?sb = "DockerSandbox_init True docker_image 900 ''512m'' 1"
  let ?b = "execute ?sb d lg (with_setup setup_commands test_command) code_files []"
  assume failed: "status (fst ?b) \<noteq> SUCCESS"
  have avail: "docker_available ?sb"
    by (simp add: DockerSandbox_init_def)
  show "fst (run_mutation_tests True d lg code_files mutation_command docker_image setup_commands
               test_command) = Inr (MutationSkipped (to_prompt (fst ?b)))"
    using failed avail by (simp add: run_mutation_tests_def Let_def case_prod_beta)
  show "map req_command
          (snd (run_mutation_tests True d lg code_files mutation_command docker_image
                  setup_commands test_command))
        = map req_command lg @ [with_setup setup_commands test_command]"
    using failed avail execute_log [of ?sb d lg "with_setup setup_commands test_command" code_files "[]"]
    by (simp add: run_mutation_tests_def Let_def case_prod_beta)
next
  let ?sb = "branch_sandbox True docker_image t"
  let ?cmd = "baseline_command github_token repo_name branch_name setup_commands test_command"
  let ?b = "execute ?sb d lg ?cmd [] (token_env github_token)"
  assume failed: "status (fst ?b) \<noteq> SUCCESS"
  have avail: "docker_available ?sb"
    by (simp add: branch_sandbox_def DockerSandbox_init_def)
  from failed have nonzero: "exit_code (fst ?b) \<noteq> 0"
    using execute_status_exit [of ?sb d lg ?cmd "[]" "token_env github_token"] by simp
  show "fst (run_mutation_tests_on_branch True github_token d lg repo_name branch_name
               mutation_command docker_image setup_commands test_command min_mutation_score t)
        = Inr (skipped_report github_token (fst ?b))"
    using nonzero avail
    by (simp add: run_mutation_tests_on_branch_def Let_def case_prod_beta)
  show "map req_command
          (snd (run_mutation_tests_on_branch True github_token d lg repo_name branch_name
                  mutation_command docker_image setup_commands test_command
                  min_mutation_score t))
        = map req_command lg @ [?cmd]"
    using nonzero avail execute_log [of ?sb d lg ?cmd "[]" "token_env github_token"]
    by (simp add: run_mutation_tests_on_branch_def Let_def case_prod_beta)
qed

theorem mutation_skipped_on_failed_baseline_witness:
  "status (fst (execute (DockerSandbox_init True ''python:3.12-slim'' 900 ''512m'' 1)
             (fixed_daemon 1 ''1 failed'' 3) []
             (with_setup [''pip install pytest''] ''pytest'') [(''test_a.py'', ''assert False'')] []))
     \<noteq> SUCCESS
   \<and> fst (run_mutation_tests True (fixed_daemon 1 ''1 failed'' 3) []
            [(''test_a.py'', ''assert False'')] ''mutmut run'' ''python:3.12-slim''
            [''pip install pytest''] ''pytest'')
     = Inr (MutationSkipped
         \<lparr> prompt_status = FAILURE, prompt_exit_code = 1, prompt_duration = 3,
           prompt_passed = 0, prompt_failed = 1, prompt_skipped = 0, prompt_coverage = None,
           prompt_output = ''1 failed'', prompt_errors = None \<rparr>)
   \<and> map req_command
         (snd (run_mutation_tests True (fixed_daemon 1 ''1 failed'' 3) []
                 [(''test_a.py'', ''assert False'')] ''mutmut run'' ''python:3.12-slim''
                 [''pip install pytest''] ''pytest''))
     = [''pip install pytest && pytest'']
   \<and> status (fst (execute (branch_sandbox True ''python:3.12-slim'' 900)
             (fixed_daemon 1 ''1 failed'' 3) []
             (baseline_command [] ''acme/widgets'' ''fix-1'' [] ''pytest'') [] (token_env [])))
     \<noteq> SUCCESS
   \<and> fst (run_mutation_tests_on_branch True [] (fixed_daemon 1 ''1 failed'' 3) []
            ''acme/widgets'' ''fix-1'' ''mutmut run'' ''python:3.12-slim'' [] ''pytest'' 60 900)
     = Inr (BranchMutationSkipped ''1 failed'' None)
   \<and> length (snd (run_mutation_tests_on_branch True [] (fixed_daemon 1 ''1 failed'' 3) []
            ''acme/widgets'' ''fix-1'' ''mutmut run'' ''python:3.12-slim'' [] ''pytest'' 60 900))
     = 1"
proof -
  let ?d = "fixed_daemon 1 ''1 failed'' 3"
  let ?files = "[(''test_a.py'', ''assert False'')]"
  let ?b1 = "execute (DockerSandbox_init True ''python:3.12-slim'' 900 ''512m'' 1) ?d []
               (with_setup [''pip install pytest''] ''pytest'') ?files []"
  let ?b2 = "execute (branch_sandbox True ''python:3.12-slim'' 900) ?d []
               (baseline_command [] ''acme/widgets'' ''fix-1'' [] ''pytest'') [] (token_env [])"
  have h1: "status (fst ?b1) \<noteq> SUCCESS"
    by code_simp
  have h2: "status (fst ?b2) \<noteq> SUCCESS"
    by code_simp
  have p1: "to_prompt (fst ?b1) =
      \<lparr> prompt_status = FAILURE, prompt_exit_code = 1, prompt_duration = 3,
        prompt_passed = 0, prompt_failed = 1, prompt_skipped = 0, prompt_coverage = None,
        prompt_output = ''1 failed'', prompt_errors = None \<rparr>"
    by code_simp
  have p2: "skipped_report [] (fst ?b2) = BranchMutationSkipped ''1 failed'' None"
    by code_simp
  have c1: "with_setup [''pip install pytest''] ''pytest'' = ''pip install pytest && pytest''"
    by code_simp
  note t = mutation_skipped_on_failed_baseline
    [where d = ?d and lg = "[]" and docker_image = "''python:3.12-slim''"
       and setup_commands = "[''pip install pytest'']" and test_command = "''pytest''"
       and code_files = ?files and mutation_command = "''mutmut run''"]
  note u = mutation_skipped_on_failed_baseline
    [where d = ?d and lg = "[]" and docker_image = "''python:3.12-slim''"
       and setup_commands = "[]" and test_command = "''pytest''"
       and github_token = "[]" and repo_name = "''acme/widgets''" and branch_name = "''fix-1''"
       and mutation_command = "''mutmut run''" and min_mutation_score = 60 and t = 900]
  note ab = t [THEN conjunct1, THEN mp, OF h1]
  note a = ab [THEN conjunct1] and b = ab [THEN conjunct2]
  note ce = u [THEN conjunct2, THEN mp, OF h2]
  note c = ce [THEN conjunct1] and e = ce [THEN conjunct2]
  have b': "map req_command (snd (run_mutation_tests True ?d [] ?files ''mutmut run''
            ''python:3.12-slim'' [''pip install pytest''] ''pytest''))
          = [''pip install pytest && pytest'']"
    using b by (simp only: c1 list.map append_Nil)
  have e': "length (snd (run_mutation_tests_on_branch True [] ?d [] ''acme/widgets''
            ''fix-1'' ''mutmut run'' ''python:3.12-slim'' [] ''pytest'' 60 900)) = 1"
    using arg_cong [OF e, of length] by simp
  show ?thesis
    using h1 a [unfolded p1] b' h2 c [unfolded p2] e' by (intro conjI)
qed

section \<open>Mutation testing: the score\<close>




lemma stryker_parsed:
  "parse_mutation_output (stryker_output @ [CHR 0x0A]) =
     Inr \<lparr> p_total = 425, p_killed = 401, p_survived = 0, p_timed_out = 21,
           p_no_coverage = 1, p_score = 0 \<rparr>"
  by code_simp




section \<open>The gateway: branches and files\<close>











section \<open>The gateway: CI status\<close>



section \<open>The CI monitors: failed checks and the timeout\<close>



lemma failure_terminal: "''failure'' \<in> set terminal_states"
  by (simp add: terminal_states_def)













end
